theory Spec2Isabelle
  imports Main "HOL-Library.AList"
begin

section \<open>Python values, types and exceptions\<close>

text \<open>
  The registry of \<^verbatim>\<open>LiveConfig/manager.py\<close> works on ordinary Python objects.
  An object is identified by a reference that also fixes its runtime class
  (\<^verbatim>\<open>type(instance)\<close> never changes); the attributes an object carries in its
  \<^verbatim>\<open>__dict__\<close> live in a store, so that two names bound to the same object share
  every update.
\<close>

datatype obj_ref = Obj (class_of: nat) (serial: nat)

datatype pyval =
    VNone
  | VBool bool
  | VInt int
  | VStr string
  | VTuple "pyval list"
  | VList "pyval list"
  | VObj obj_ref

datatype pytype = TNone | TBool | TInt | TStr | TTuple | TList | TClass nat

text \<open>\<^verbatim>\<open>type(v)\<close>: values of any other class (floats, dicts, user objects) are \<open>VObj\<close>.\<close>

fun type_of :: "pyval \<Rightarrow> pytype" where
  "type_of VNone = TNone"
| "type_of (VBool b) = TBool"
| "type_of (VInt n) = TInt"
| "type_of (VStr s) = TStr"
| "type_of (VTuple xs) = TTuple"
| "type_of (VList xs) = TList"
| "type_of (VObj r) = TClass (class_of r)"

text \<open>
  Exceptions. \<open>NonException\<close> stands for the subclasses of \<^verbatim>\<open>BaseException\<close> that are
  not subclasses of \<^verbatim>\<open>Exception\<close>; \<^verbatim>\<open>except Exception\<close> does not catch them.
\<close>

datatype exc =
    ValueError string
  | TypeError
  | AttributeError
  | OtherException string
  | NonException string

fun is_Exception :: "exc \<Rightarrow> bool" where
  "is_Exception (NonException m) = False"
| "is_Exception e = True"

fun is_TypeError_or_ValueError :: "exc \<Rightarrow> bool" where
  "is_TypeError_or_ValueError TypeError = True"
| "is_TypeError_or_ValueError (ValueError m) = True"
| "is_TypeError_or_ValueError e = False"

type_synonym 'a result = "exc + 'a"

type_synonym pydict = "(string \<times> pyval) list"

type_synonym snapshot = "(string \<times> pydict) list"

text \<open>
  A Python dict keeps its keys in insertion order; assigning to a key that is present
  keeps its position, assigning to a new key appends it. This is \<open>AList.update\<close>.
  Keys of the dicts built here are strings, which are hashable, so the item assignment
  \<^verbatim>\<open>d[k] = v\<close> has no failing branch.
\<close>

definition dict_setitem :: "string \<Rightarrow> 'v \<Rightarrow> (string \<times> 'v) list \<Rightarrow> (string \<times> 'v) list result" where
  "dict_setitem k v d = Inr (AList.update k v d)"

definition startswith :: "string \<Rightarrow> string \<Rightarrow> bool" where
  "startswith s p = (take (length p) s = p)"

section \<open>The state: the manager, the classes and the objects\<close>

record pyclass =
  cname :: string
  cattrs :: pydict

record fhandler =
  loaded_values :: "(string \<times> snapshot) list option"

record world =
  live_classes :: "(string \<times> nat) list"
  live_instances :: "(string \<times> obj_ref) list"
  file_handler :: "fhandler option"
  classes :: "nat \<Rightarrow> pyclass"
  objects :: "obj_ref \<Rightarrow> pydict"

text \<open>
  \<^verbatim>\<open>LiveManager.__init__\<close>: both tables empty, no file handler. The classes and
  objects of the running program are given.
\<close>

definition LiveManager_init :: "(nat \<Rightarrow> pyclass) \<Rightarrow> (obj_ref \<Rightarrow> pydict) \<Rightarrow> world" where
  "LiveManager_init cs os =
     \<lparr>live_classes = [], live_instances = [], file_handler = None, classes = cs, objects = os\<rparr>"

text \<open>
  Attribute access. \<^verbatim>\<open>getattr(instance, a)\<close> reads the instance's own attributes
  and then the attributes of its class; \<^verbatim>\<open>setattr(instance, a, v)\<close> writes the
  instance's own attributes. Classes are modelled without base classes, and objects
  as plain objects with a \<^verbatim>\<open>__dict__\<close> (no slots, no properties).
\<close>

definition class_getattr :: "world \<Rightarrow> nat \<Rightarrow> string \<Rightarrow> pyval option" where
  "class_getattr w c a = map_of (cattrs (classes w c)) a"

definition class_setattr :: "nat \<Rightarrow> string \<Rightarrow> pyval \<Rightarrow> world \<Rightarrow> world" where
  "class_setattr c a v w =
     w\<lparr>classes := (classes w)(c := (classes w c)\<lparr>cattrs := AList.update a v (cattrs (classes w c))\<rparr>)\<rparr>"

definition getattr :: "world \<Rightarrow> obj_ref \<Rightarrow> string \<Rightarrow> pyval option" where
  "getattr w r a =
     (case map_of (objects w r) a of
        Some v \<Rightarrow> Some v
      | None \<Rightarrow> class_getattr w (class_of r) a)"

definition setattr :: "obj_ref \<Rightarrow> string \<Rightarrow> pyval \<Rightarrow> world \<Rightarrow> world" where
  "setattr r a v w = w\<lparr>objects := (objects w)(r := AList.update a v (objects w r))\<rparr>"

section \<open>Calling a type on a value\<close>

text \<open>
  \<^verbatim>\<open>attr_type(value)\<close> calls the type object. The cases that the built-in types
  decide on the values above are written out; every other case (parsing a string as an
  integer, the textual form of a value, the constructors and conversion methods of
  other classes) is left to the parameter \<open>ext\<close>.
\<close>

fun call_type :: "(pytype \<Rightarrow> pyval \<Rightarrow> pyval result) \<Rightarrow> pytype \<Rightarrow> pyval \<Rightarrow> pyval result" where
  "call_type ext TBool VNone = Inr (VBool False)"
| "call_type ext TBool (VBool b) = Inr (VBool b)"
| "call_type ext TBool (VInt n) = Inr (VBool (n \<noteq> 0))"
| "call_type ext TBool (VStr s) = Inr (VBool (s \<noteq> []))"
| "call_type ext TBool (VTuple xs) = Inr (VBool (xs \<noteq> []))"
| "call_type ext TBool (VList xs) = Inr (VBool (xs \<noteq> []))"
| "call_type ext TInt VNone = Inl TypeError"
| "call_type ext TInt (VBool b) = Inr (VInt (if b then 1 else 0))"
| "call_type ext TInt (VInt n) = Inr (VInt n)"
| "call_type ext TInt (VTuple xs) = Inl TypeError"
| "call_type ext TInt (VList xs) = Inl TypeError"
| "call_type ext TTuple VNone = Inl TypeError"
| "call_type ext TTuple (VBool b) = Inl TypeError"
| "call_type ext TTuple (VInt n) = Inl TypeError"
| "call_type ext TTuple (VStr s) = Inr (VTuple (map (\<lambda>c. VStr [c]) s))"
| "call_type ext TTuple (VTuple xs) = Inr (VTuple xs)"
| "call_type ext TTuple (VList xs) = Inr (VTuple xs)"
| "call_type ext TList VNone = Inl TypeError"
| "call_type ext TList (VBool b) = Inl TypeError"
| "call_type ext TList (VInt n) = Inl TypeError"
| "call_type ext TList (VStr s) = Inr (VList (map (\<lambda>c. VStr [c]) s))"
| "call_type ext TList (VTuple xs) = Inr (VList xs)"
| "call_type ext TList (VList xs) = Inr (VList xs)"
| "call_type ext TStr (VStr s) = Inr (VStr s)"
| "call_type ext TNone v = Inl TypeError"
| "call_type ext T v = ext T v"


section \<open>The type checker\<close>

text \<open>
  \<^verbatim>\<open>liveconfig.typechecker.TypeChecker\<close> is imported by the manager; its four
  functions are parameters here. Each returns a value or raises; the two collection
  functions also receive the instance and the attribute name and may read the state.
\<close>

record typechecker =
  handle_bool :: "pyval \<Rightarrow> pyval result"
  handle_int :: "pyval \<Rightarrow> pyval result"
  handle_tuple :: "pyval \<Rightarrow> world \<Rightarrow> obj_ref \<Rightarrow> string \<Rightarrow> pyval result"
  handle_list :: "pyval \<Rightarrow> world \<Rightarrow> obj_ref \<Rightarrow> string \<Rightarrow> pyval result"

section \<open>LiveManager\<close>

text \<open>
  Every operation returns its outcome together with the state it leaves: \<open>Inr\<close> the
  returned value, \<open>Inl\<close> the exception raised to the caller. Warnings written to the
  log are not part of the state.
\<close>

definition register_class :: "nat \<Rightarrow> world \<Rightarrow> nat result \<times> world" where
  "register_class cls w =
     (Inr cls, w\<lparr>live_classes := AList.update (cname (classes w cls)) cls (live_classes w)\<rparr>)"

fun load_values_into_instance :: "obj_ref \<Rightarrow> pydict \<Rightarrow> world \<Rightarrow> world" where
  "load_values_into_instance instance [] w = w"
| "load_values_into_instance instance ((attr, v) # rest) w =
     load_values_into_instance instance rest (setattr instance attr v w)"

definition register_instance :: "string \<Rightarrow> obj_ref \<Rightarrow> world \<Rightarrow> pyval result \<times> world" where
  "register_instance name instance w =
     (if map_of (live_instances w) name \<noteq> None
      then (Inl (ValueError (''Instance with name '' @ name @ '' already exists.'')), w)
      else
        let w1 =
              (case file_handler w of
                 None \<Rightarrow> w
               | Some fh \<Rightarrow>
                   (case loaded_values fh of
                      None \<Rightarrow> w
                    | Some lv \<Rightarrow>
                        (case map_of lv ''live_instances'' of
                           None \<Rightarrow> w
                         | Some snap \<Rightarrow>
                             load_values_into_instance instance
                               (case map_of snap name of None \<Rightarrow> [] | Some saved_attrs \<Rightarrow> saved_attrs) w)));
            w2 = w1\<lparr>live_instances := AList.update name instance (live_instances w1)\<rparr>;
            cls = class_of instance
        in (case class_getattr w2 cls ''_instances'' of
              None \<Rightarrow> (Inr VNone, class_setattr cls ''_instances'' (VList [VObj instance]) w2)
            | Some (VList xs) \<Rightarrow>
                (Inr VNone, class_setattr cls ''_instances'' (VList (xs @ [VObj instance])) w2)
            | Some other \<Rightarrow> (Inl AttributeError, w2)))"

definition get_live_classes :: "world \<Rightarrow> (string \<times> nat) list" where
  "get_live_classes w = live_classes w"

definition get_live_class_by_name :: "world \<Rightarrow> string \<Rightarrow> nat option" where
  "get_live_class_by_name w class_name = map_of (live_classes w) class_name"


definition get_live_instance_by_name :: "world \<Rightarrow> string \<Rightarrow> obj_ref option" where
  "get_live_instance_by_name w instance_name =
     (if map_of (live_instances w) instance_name \<noteq> None
      then map_of (live_instances w) instance_name
      else None)"

definition get_live_instance_attr_by_name :: "world \<Rightarrow> obj_ref option \<Rightarrow> string \<Rightarrow> pyval" where
  "get_live_instance_attr_by_name w instance attr_name =
     (case instance of
        Some r \<Rightarrow> (case getattr w r attr_name of Some attr \<Rightarrow> attr | None \<Rightarrow> VNone)
      | None \<Rightarrow> VNone)"

text \<open>
  Lines 109 to 114: the \<^verbatim>\<open>try\<close> block. \<^verbatim>\<open>return setattr(...)\<close> returns what
  \<^verbatim>\<open>setattr\<close> returns, which is \<^verbatim>\<open>None\<close>.
\<close>

definition try_update ::
  "(pytype \<Rightarrow> pyval \<Rightarrow> pyval result) \<Rightarrow> pytype \<Rightarrow> obj_ref \<Rightarrow> string \<Rightarrow> pyval \<Rightarrow> world \<Rightarrow> pyval result \<times> world" where
  "try_update ext attr_type instance attr_name v w =
     (case call_type ext attr_type v of
        Inr v' \<Rightarrow> (Inr VNone, setattr instance attr_name v' w)
      | Inl e \<Rightarrow> if is_Exception e then (Inr VNone, w) else (Inl e, w))"

definition set_live_instance_attr_by_name ::
  "typechecker \<Rightarrow> (pytype \<Rightarrow> pyval \<Rightarrow> pyval result) \<Rightarrow> string \<Rightarrow> string \<Rightarrow> pyval \<Rightarrow> world \<Rightarrow> pyval result \<times> world" where
  "set_live_instance_attr_by_name tc ext instance_name attr_name v w =
     (case get_live_instance_by_name w instance_name of
        None \<Rightarrow> (Inr VNone, w)
      | Some instance \<Rightarrow>
          let attr = get_live_instance_attr_by_name w (Some instance) attr_name in
          if attr = VNone then (Inr VNone, w)
          else
            let attr_type = type_of attr in
            if attr_type = TBool then
              (case handle_bool tc v of
                 Inl e \<Rightarrow> (Inl e, w)
               | Inr v1 \<Rightarrow> try_update ext attr_type instance attr_name v1 w)
            else if attr_type = TInt then
              (case handle_int tc v of
                 Inl e \<Rightarrow> (Inl e, w)
               | Inr v1 \<Rightarrow> try_update ext attr_type instance attr_name v1 w)
            else if attr_type = TTuple then
              (case handle_tuple tc v w instance attr_name of
                 Inl e \<Rightarrow> (Inl e, w)
               | Inr v1 \<Rightarrow>
                   if v1 = VNone then (Inr VNone, w)
                   else try_update ext attr_type instance attr_name v1 w)
            else if attr_type = TList then
              (case handle_list tc v w instance attr_name of
                 Inl e \<Rightarrow> (Inl e, w)
               | Inr v1 \<Rightarrow>
                   if v1 = VNone then (Inr VNone, w)
                   else try_update ext attr_type instance attr_name v1 w)
            else try_update ext attr_type instance attr_name v w)"

text \<open>
  \<^verbatim>\<open>serialize_instances\<close>: the inner loop over \<^verbatim>\<open>vars(live_instance).items()\<close>
  with its guarded assignment, and the outer loop over the instance table.
\<close>

fun clean_loop :: "(pytype \<Rightarrow> pyval \<Rightarrow> pyval result) \<Rightarrow> pydict \<Rightarrow> pydict \<Rightarrow> pydict result" where
  "clean_loop ext [] clean_attrs = Inr clean_attrs"
| "clean_loop ext ((attr, v) # rest) clean_attrs =
     (if startswith attr ''__'' \<or> startswith attr ''_tracked_attrs''
      then clean_loop ext rest clean_attrs
      else
        (case dict_setitem attr v clean_attrs of
           Inr d \<Rightarrow> clean_loop ext rest d
         | Inl e \<Rightarrow>
             if is_TypeError_or_ValueError e then
               (case call_type ext TStr v of
                  Inl e' \<Rightarrow> Inl e'
                | Inr s \<Rightarrow>
                    (case dict_setitem attr s clean_attrs of
                       Inl e' \<Rightarrow> Inl e'
                     | Inr d \<Rightarrow> clean_loop ext rest d))
             else Inl e))"

fun instances_loop ::
  "(pytype \<Rightarrow> pyval \<Rightarrow> pyval result) \<Rightarrow> world \<Rightarrow> (string \<times> obj_ref) list \<Rightarrow> snapshot \<Rightarrow> snapshot result" where
  "instances_loop ext w [] acc = Inr acc"
| "instances_loop ext w ((instance_name, live_instance) # rest) acc =
     (case clean_loop ext (objects w live_instance) [] of
        Inl e \<Rightarrow> Inl e
      | Inr clean_attrs \<Rightarrow>
          (case dict_setitem instance_name clean_attrs acc of
             Inl e \<Rightarrow> Inl e
           | Inr acc' \<Rightarrow> instances_loop ext w rest acc'))"

definition serialize_instances ::
  "(pytype \<Rightarrow> pyval \<Rightarrow> pyval result) \<Rightarrow> world \<Rightarrow> (string \<times> snapshot) list result" where
  "serialize_instances ext w =
     (case instances_loop ext w (live_instances w) [] of
        Inl e \<Rightarrow> Inl e
      | Inr s \<Rightarrow> Inr [(''live_instances'', s)])"

section \<open>Reachable states\<close>

text \<open>
  The states a program reaches by creating the manager and then calling its mutating
  operations, or assigning its \<^verbatim>\<open>file_handler\<close>, in any order. The attribute
  \<^verbatim>\<open>_instances\<close> belongs to the registry: no class defines it before the manager
  is created.
\<close>

inductive reachable :: "typechecker \<Rightarrow> (pytype \<Rightarrow> pyval \<Rightarrow> pyval result) \<Rightarrow> world \<Rightarrow> bool"
  for tc :: typechecker and ext :: "pytype \<Rightarrow> pyval \<Rightarrow> pyval result" where
  init: "(\<And>c. class_getattr (LiveManager_init cs os) c ''_instances'' = None) \<Longrightarrow>
         reachable tc ext (LiveManager_init cs os)"
| set_file_handler: "reachable tc ext w \<Longrightarrow> reachable tc ext (w\<lparr>file_handler := fh\<rparr>)"
| reg_class: "reachable tc ext w \<Longrightarrow> reachable tc ext (snd (register_class c w))"
| reg_instance: "reachable tc ext w \<Longrightarrow> reachable tc ext (snd (register_instance n r w))"
| set_attr: "reachable tc ext w \<Longrightarrow>
             reachable tc ext (snd (set_live_instance_attr_by_name tc ext n a v w))"


section \<open>The serialization loops without their handler\<close>

text \<open>
  Proof devices: the two loops of \<^verbatim>\<open>serialize_instances\<close> as plain folds that
  store each value as it is. The lemmas below show that the loops of the source compute
  exactly these.
\<close>

definition excluded_attr :: "string \<Rightarrow> bool" where
  "excluded_attr a = (startswith a ''__'' \<or> startswith a ''_tracked_attrs'')"

definition plain_clean :: "pydict \<Rightarrow> pydict \<Rightarrow> pydict" where
  "plain_clean attrs acc =
     fold (\<lambda>(a, v) d. if excluded_attr a then d else AList.update a v d) attrs acc"

definition plain_instances :: "world \<Rightarrow> (string \<times> obj_ref) list \<Rightarrow> snapshot \<Rightarrow> snapshot" where
  "plain_instances w insts acc =
     fold (\<lambda>(n, r) s. AList.update n (plain_clean (objects w r) []) s) insts acc"

section \<open>A small program state for the examples\<close>

text \<open>
  Two classes, \<^verbatim>\<open>Player\<close> (class 0) and \<^verbatim>\<open>Enemy\<close> (class 1), and two
  \<^verbatim>\<open>Player\<close> objects. The sample type checker knows a few tokens and raises on
  everything else; the sample \<open>ext\<close> gives every value the textual form
  \<^verbatim>\<open>text\<close> and raises \<^verbatim>\<open>TypeError\<close> on every other call it is asked to
  decide.
\<close>

definition demo_classes :: "nat \<Rightarrow> pyclass" where
  "demo_classes c = \<lparr>cname = (if c = 0 then ''Player'' else ''Enemy''), cattrs = []\<rparr>"

definition demo_objects :: "obj_ref \<Rightarrow> pydict" where
  "demo_objects r =
     (if r = Obj 0 0
      then [(''a'', VInt 1), (''b'', VStr ''hi''), (''_tracked_attrs'', VList [VStr ''a'', VStr ''b''])]
      else if r = Obj 0 1
      then [(''on'', VBool False), (''gone'', VNone)]
      else [])"

definition demo_tc :: typechecker where
  "demo_tc =
     \<lparr>handle_bool = (\<lambda>v. if v = VStr ''true'' then Inr (VBool True)
                          else if v = VStr ''false'' then Inr (VBool False)
                          else Inl (OtherException ''TypeCoercionError'')),
      handle_int = (\<lambda>v. if v = VStr ''42'' then Inr (VInt 42)
                         else Inl (OtherException ''TypeCoercionError'')),
      handle_tuple = (\<lambda>v w r a. Inr VNone),
      handle_list = (\<lambda>v w r a. Inr VNone)\<rparr>"

definition demo_ext :: "pytype \<Rightarrow> pyval \<Rightarrow> pyval result" where
  "demo_ext T v = (if T = TStr then Inr (VStr ''text'') else Inl TypeError)"

definition demo_start :: world where
  "demo_start = LiveManager_init demo_classes demo_objects"

text \<open>
  The state after registering both classes and then the two players as \<^verbatim>\<open>x\<close> and
  \<^verbatim>\<open>y\<close> (lemma \<open>demo_world_run\<close>).
\<close>

definition demo_world :: world where
  "demo_world =
     \<lparr>live_classes = [(''Player'', 0), (''Enemy'', 1)],
      live_instances = [(''x'', Obj 0 0), (''y'', Obj 0 1)],
      file_handler = None,
      classes = demo_classes(0 := \<lparr>cname = ''Player'',
                  cattrs = [(''_instances'', VList [VObj (Obj 0 0), VObj (Obj 0 1)])]\<rparr>),
      objects = demo_objects\<rparr>"

text \<open>A fresh manager whose file handler has loaded a snapshot for \<^verbatim>\<open>x\<close>.\<close>

definition demo_loaded :: world where
  "demo_loaded = demo_start\<lparr>file_handler :=
      Some \<lparr>loaded_values = Some [(''live_instances'', [(''x'', [(''a'', VInt 42)])])]\<rparr>\<rparr>"

section \<open>Basic facts about dicts and attribute access\<close>

lemma update_absent: "map_of al k = None \<Longrightarrow> AList.update k v al = al @ [(k, v)]"
  by (induction al) (auto split: if_splits)

lemma update_entries: "set (AList.update k v al) \<subseteq> insert (k, v) (set al)"
  by (induction al) auto

lemma getattr_setattr_same: "getattr (setattr r a v w) r a = Some v"
  by (simp add: getattr_def setattr_def AList.update_conv')


lemma get_by_name_Some:
  "map_of (live_instances w) n = Some r \<Longrightarrow> get_live_instance_by_name w n = Some r"
  by (simp add: get_live_instance_by_name_def)


section \<open>The paths through the attribute write\<close>



lemma set_attr_bool:
  assumes "map_of (live_instances w) n = Some r" and "getattr w r a = Some cur"
      and "type_of cur = TBool"
  shows "set_live_instance_attr_by_name tc ext n a raw w =
           (case handle_bool tc raw of
              Inl e \<Rightarrow> (Inl e, w)
            | Inr v1 \<Rightarrow> try_update ext TBool r a v1 w)"
  using assms
  by (auto simp: set_live_instance_attr_by_name_def get_live_instance_attr_by_name_def
        get_by_name_Some Let_def split: sum.splits)

lemma set_attr_int:
  assumes "map_of (live_instances w) n = Some r" and "getattr w r a = Some cur"
      and "type_of cur = TInt"
  shows "set_live_instance_attr_by_name tc ext n a raw w =
           (case handle_int tc raw of
              Inl e \<Rightarrow> (Inl e, w)
            | Inr v1 \<Rightarrow> try_update ext TInt r a v1 w)"
  using assms
  by (auto simp: set_live_instance_attr_by_name_def get_live_instance_attr_by_name_def
        get_by_name_Some Let_def split: sum.splits)





lemma get_after_setattr:
  assumes "map_of (live_instances w) n = Some r"
  shows "get_live_instance_attr_by_name (setattr r a v w)
           (get_live_instance_by_name (setattr r a v w) n) a = v"
proof -
  have "get_live_instance_by_name (setattr r a v w) n = Some r"
    using assms by (simp add: get_live_instance_by_name_def setattr_def)
  then show ?thesis by (simp add: get_live_instance_attr_by_name_def getattr_setattr_same)
qed

section \<open>Loading a snapshot\<close>

lemma load_values_frame:
  "live_classes (load_values_into_instance i attrs w) = live_classes w \<and>
   live_instances (load_values_into_instance i attrs w) = live_instances w \<and>
   file_handler (load_values_into_instance i attrs w) = file_handler w \<and>
   classes (load_values_into_instance i attrs w) = classes w"
  by (induction attrs arbitrary: w) (auto simp: setattr_def)

lemma load_values_objects:
  "objects (load_values_into_instance i attrs w) =
     (objects w)(i := fold (\<lambda>(a, v). AList.update a v) attrs (objects w i))"
proof (induction attrs arbitrary: w)
  case Nil
  then show ?case by simp
next
  case (Cons p attrs)
  then show ?case by (cases p) (auto simp: setattr_def fun_eq_iff)
qed

lemma map_of_fold_update:
  assumes "distinct (map fst attrs)" and "map_of attrs a = Some v"
  shows "map_of (fold (\<lambda>(a, v). AList.update a v) attrs d) a = Some v"
  using assms
proof (induction attrs arbitrary: d)
  case Nil
  then show ?case by simp
next
  case (Cons p attrs)
  obtain a' v' where p: "p = (a', v')" by (cases p)
  show ?case
  proof (cases "a' = a")
    case True
    then have v: "v' = v" using Cons.prems p by simp
    have "a \<notin> fst ` set attrs" using Cons.prems p True by auto
    then have "map_of (fold (\<lambda>(a, v). AList.update a v) attrs d') a = map_of d' a" for d'
      by (induction attrs arbitrary: d') (auto simp: AList.update_conv')
    then show ?thesis using p True v by (simp add: AList.update_conv')
  next
    case False
    then show ?thesis using Cons p by simp
  qed
qed

lemma register_instance_fresh_frame:
  assumes "map_of (live_instances w) name = None"
  shows "live_instances (snd (register_instance name inst w)) =
           live_instances w @ [(name, inst)]"
    and "file_handler w = Some fh \<Longrightarrow> loaded_values fh = Some lv \<Longrightarrow>
         map_of lv ''live_instances'' = Some snap \<Longrightarrow> map_of snap name = Some attrs \<Longrightarrow>
         objects (snd (register_instance name inst w)) =
           objects (load_values_into_instance inst attrs w)"
  using assms
  by (auto simp: register_instance_def Let_def class_setattr_def load_values_frame update_absent
        split: option.splits pyval.splits)

section \<open>The invariant of the per-class lists\<close>




section \<open>The serialization loops\<close>

lemma clean_loop_plain: "clean_loop ext attrs acc = Inr (plain_clean attrs acc)"
  by (induction attrs arbitrary: acc)
     (auto simp: plain_clean_def excluded_attr_def dict_setitem_def)

lemma instances_loop_plain: "instances_loop ext w insts acc = Inr (plain_instances w insts acc)"
  by (induction insts arbitrary: acc)
     (auto simp: plain_instances_def clean_loop_plain dict_setitem_def)

lemma plain_clean_Cons:
  "plain_clean ((a, v) # attrs) acc =
     plain_clean attrs (if excluded_attr a then acc else AList.update a v acc)"
  by (simp add: plain_clean_def)

lemma plain_instances_Cons:
  "plain_instances w ((n, r) # insts) acc =
     plain_instances w insts (AList.update n (plain_clean (objects w r) []) acc)"
  by (simp add: plain_instances_def)

lemma plain_clean_filter:
  assumes "distinct (map fst attrs)" and "fst ` set attrs \<inter> fst ` set acc = {}"
  shows "plain_clean attrs acc = acc @ filter (\<lambda>(a, v). \<not> excluded_attr a) attrs"
  using assms
proof (induction attrs arbitrary: acc)
  case Nil
  then show ?case by (simp add: plain_clean_def)
next
  case (Cons p attrs)
  obtain a v where p: "p = (a, v)" by (cases p)
  show ?case
  proof (cases "excluded_attr a")
    case True
    have "plain_clean attrs acc = acc @ filter (\<lambda>(a, v). \<not> excluded_attr a) attrs"
      using Cons.prems by (intro Cons.IH) auto
    then show ?thesis using True p by (simp add: plain_clean_Cons)
  next
    case False
    have na: "map_of acc a = None" using Cons.prems p by (auto simp: map_of_eq_None_iff)
    have upd: "AList.update a v acc = acc @ [(a, v)]" using na by (rule update_absent)
    have "plain_clean attrs (acc @ [(a, v)]) =
          (acc @ [(a, v)]) @ filter (\<lambda>(a, v). \<not> excluded_attr a) attrs"
      using Cons.prems p by (intro Cons.IH) auto
    then show ?thesis using False p upd by (simp add: plain_clean_Cons)
  qed
qed

lemma plain_clean_subset: "set (plain_clean attrs acc) \<subseteq> set acc \<union> set attrs"
proof (induction attrs arbitrary: acc)
  case Nil
  then show ?case by (simp add: plain_clean_def)
next
  case (Cons p attrs)
  obtain a v where p: "p = (a, v)" by (cases p)
  show ?case
    unfolding p plain_clean_Cons
    using Cons.IH[of "if excluded_attr a then acc else AList.update a v acc"]
          update_entries[of a v acc]
    by (auto split: if_splits)
qed

lemma plain_instances_map:
  assumes "distinct (map fst insts)" and "fst ` set insts \<inter> fst ` set acc = {}"
  shows "plain_instances w insts acc =
           acc @ map (\<lambda>(n, r). (n, plain_clean (objects w r) [])) insts"
  using assms
proof (induction insts arbitrary: acc)
  case Nil
  then show ?case by (simp add: plain_instances_def)
next
  case (Cons p insts)
  obtain n r where p: "p = (n, r)" by (cases p)
  have na: "map_of acc n = None" using Cons.prems p by (auto simp: map_of_eq_None_iff)
  have upd: "AList.update n (plain_clean (objects w r) []) acc =
             acc @ [(n, plain_clean (objects w r) [])]"
    using na by (rule update_absent)
  have "plain_instances w insts (acc @ [(n, plain_clean (objects w r) [])]) =
        (acc @ [(n, plain_clean (objects w r) [])]) @
        map (\<lambda>(n, r). (n, plain_clean (objects w r) [])) insts"
    using Cons.prems p by (intro Cons.IH) auto
  then show ?case using upd p by (simp add: plain_instances_Cons)
qed

lemma plain_instances_mem:
  "(n, d) \<in> set (plain_instances w insts acc) \<Longrightarrow>
     (n, d) \<in> set acc \<or> (\<exists>r. (n, r) \<in> set insts \<and> d = plain_clean (objects w r) [])"
proof (induction insts arbitrary: acc)
  case Nil
  then show ?case by (simp add: plain_instances_def)
next
  case (Cons p insts)
  obtain m r where p: "p = (m, r)" by (cases p)
  from Cons.prems
  have "(n, d) \<in> set (plain_instances w insts (AList.update m (plain_clean (objects w r) []) acc))"
    unfolding p plain_instances_Cons .
  from Cons.IH[OF this] show ?case
    using update_entries[of m "plain_clean (objects w r) []" acc] p by auto
qed

section \<open>The example state\<close>




lemma demo_x: "map_of (live_instances demo_world) ''x'' = Some (Obj 0 0)"
  by (simp add: demo_world_def)

lemma demo_y: "map_of (live_instances demo_world) ''y'' = Some (Obj 0 1)"
  by (simp add: demo_world_def)

lemma demo_x_a: "getattr demo_world (Obj 0 0) ''a'' = Some (VInt 1)"
  by (simp add: getattr_def demo_world_def demo_objects_def)




section \<open>Duplicate names\<close>

text \<open>
  C1. Registering under a name that is already in the instance table raises the
  \<^verbatim>\<open>ValueError\<close> of line 24 and changes nothing: the instance table, the classes
  with their \<^verbatim>\<open>_instances\<close> lists and every object, the one being registered
  included, are as before the call. No snapshot is applied and no list is appended to.
\<close>

theorem register_instance_duplicate:
  assumes "map_of (live_instances w) name = Some r"
  shows "register_instance name instance w =
           (Inl (ValueError (''Instance with name '' @ name @ '' already exists.'')), w)"
  using assms by (simp add: register_instance_def)

text \<open>
  Example: \<^verbatim>\<open>x\<close> is taken; a second registration under \<^verbatim>\<open>x\<close> raises and leaves
  the state as it was, although a snapshot for \<^verbatim>\<open>x\<close> has been loaded.
\<close>

theorem register_instance_duplicate_witness:
  "register_instance ''x'' (Obj 1 7)
     (demo_world\<lparr>file_handler :=
        Some \<lparr>loaded_values = Some [(''live_instances'', [(''x'', [(''a'', VInt 42)])])]\<rparr>\<rparr>) =
     (Inl (ValueError ''Instance with name x already exists.''),
      demo_world\<lparr>file_handler :=
        Some \<lparr>loaded_values = Some [(''live_instances'', [(''x'', [(''a'', VInt 42)])])]\<rparr>\<rparr>)"
proof -
  have h: "map_of (live_instances (demo_world\<lparr>file_handler :=
        Some \<lparr>loaded_values = Some [(''live_instances'', [(''x'', [(''a'', VInt 42)])])]\<rparr>\<rparr>)) ''x'' =
        Some (Obj 0 0)"
    by (simp add: demo_world_def)
  show ?thesis using register_instance_duplicate[OF h, of "Obj 1 7"] by simp
qed

section \<open>Writing and reading back a bool or int attribute\<close>

text \<open>
  C2. Let the instance be registered under \<open>n\<close> and let its attribute \<open>a\<close> hold a
  bool or an int. When the type checker's function for that type accepts the raw input
  and returns the coerced bool or int, reading the attribute after the write returns
  that value. When it rejects the raw input (it raises), the write changes nothing and
  the value held before is still the one read.
\<close>

theorem set_then_get_bool_int:
  assumes "map_of (live_instances w) n = Some r" and "getattr w r a = Some cur"
  shows "(type_of cur = TBool \<and> handle_bool tc raw = Inr (VBool b) \<longrightarrow>
            (let w' = snd (set_live_instance_attr_by_name tc ext n a raw w)
             in get_live_instance_attr_by_name w' (get_live_instance_by_name w' n) a = VBool b))
       \<and> (type_of cur = TInt \<and> handle_int tc raw = Inr (VInt k) \<longrightarrow>
            (let w' = snd (set_live_instance_attr_by_name tc ext n a raw w)
             in get_live_instance_attr_by_name w' (get_live_instance_by_name w' n) a = VInt k))
       \<and> ((type_of cur = TBool \<and> handle_bool tc raw = Inl e) \<or>
           (type_of cur = TInt \<and> handle_int tc raw = Inl e) \<longrightarrow>
            set_live_instance_attr_by_name tc ext n a raw w = (Inl e, w) \<and>
            get_live_instance_attr_by_name w (get_live_instance_by_name w n) a = cur)"
proof -
  have cur: "get_live_instance_attr_by_name w (get_live_instance_by_name w n) a = cur"
    using assms by (simp add: get_by_name_Some get_live_instance_attr_by_name_def)
  show ?thesis
    using cur get_after_setattr[OF assms(1)] set_attr_bool[OF assms] set_attr_int[OF assms]
    by (auto simp: try_update_def Let_def)
qed

text \<open>
  Example: the int attribute \<^verbatim>\<open>a\<close> of \<^verbatim>\<open>x\<close> reads 42 after writing
  \<^verbatim>\<open>"42"\<close>, the bool attribute \<^verbatim>\<open>on\<close> of \<^verbatim>\<open>y\<close> reads true after writing
  \<^verbatim>\<open>"true"\<close>, and writing \<^verbatim>\<open>"4x2"\<close> to \<^verbatim>\<open>a\<close> leaves 1 in place.
\<close>

theorem set_then_get_bool_int_witness:
  "(let w' = snd (set_live_instance_attr_by_name demo_tc demo_ext ''x'' ''a'' (VStr ''42'') demo_world)
    in get_live_instance_attr_by_name w' (get_live_instance_by_name w' ''x'') ''a'' = VInt 42) \<and>
   (let w' = snd (set_live_instance_attr_by_name demo_tc demo_ext ''y'' ''on'' (VStr ''true'') demo_world)
    in get_live_instance_attr_by_name w' (get_live_instance_by_name w' ''y'') ''on'' = VBool True) \<and>
   set_live_instance_attr_by_name demo_tc demo_ext ''x'' ''a'' (VStr ''4x2'') demo_world =
     (Inl (OtherException ''TypeCoercionError''), demo_world) \<and>
   get_live_instance_attr_by_name demo_world (get_live_instance_by_name demo_world ''x'') ''a'' = VInt 1"
proof -
  have c: "getattr demo_world (Obj 0 1) ''on'' = Some (VBool False)"
    by (simp add: getattr_def demo_world_def demo_objects_def)
  have h1: "handle_int demo_tc (VStr ''42'') = Inr (VInt 42)"
    and h2: "handle_bool demo_tc (VStr ''true'') = Inr (VBool True)"
    and h3: "handle_int demo_tc (VStr ''4x2'') = Inl (OtherException ''TypeCoercionError'')"
    by (simp_all add: demo_tc_def)
  show ?thesis
    using set_then_get_bool_int[OF demo_x demo_x_a, where tc = demo_tc and raw = "VStr ''42''"
            and b = True and k = 42 and ext = demo_ext and e = "OtherException ''X''"]
          set_then_get_bool_int[OF demo_y c, where tc = demo_tc and raw = "VStr ''true''"
            and b = True and k = 0 and ext = demo_ext and e = "OtherException ''X''"]
          set_then_get_bool_int[OF demo_x demo_x_a, where tc = demo_tc and raw = "VStr ''4x2''"
            and b = True and k = 0 and ext = demo_ext and e = "OtherException ''TypeCoercionError''"]
          h1 h2 h3
    by simp
qed

section \<open>What the attribute write returns\<close>




section \<open>Type preservation\<close>



section \<open>Applying a loaded snapshot at registration\<close>

text \<open>
  C5. When the file handler has loaded values with a \<^verbatim>\<open>live_instances\<close> entry that
  holds attributes for the name being registered, and the name is free, registration
  leaves the instance in the table under that name with every attribute of the snapshot
  written over the instance's own attributes, whatever types the old and the new values
  have: each attribute \<open>a\<close> of the snapshot reads as the snapshot's value.
\<close>

theorem register_instance_applies_snapshot:
  assumes "file_handler w = Some fh" and "loaded_values fh = Some lv"
      and "map_of lv ''live_instances'' = Some snap" and "map_of snap name = Some attrs"
      and "distinct (map fst attrs)"
      and "map_of (live_instances w) name = None"
      and "map_of attrs a = Some v"
  shows "get_live_instance_by_name (snd (register_instance name inst w)) name = Some inst \<and>
         getattr (snd (register_instance name inst w)) inst a = Some v \<and>
         objects (snd (register_instance name inst w)) inst =
           fold (\<lambda>(a, v). AList.update a v) attrs (objects w inst)"
proof -
  let ?w' = "snd (register_instance name inst w)"
  have tab: "live_instances ?w' = live_instances w @ [(name, inst)]"
    using register_instance_fresh_frame(1)[OF assms(6)] .
  have obj: "objects ?w' inst = fold (\<lambda>(a, v). AList.update a v) attrs (objects w inst)"
    using register_instance_fresh_frame(2)[OF assms(6) assms(1-4)]
    by (simp add: load_values_objects)
  have "map_of (live_instances ?w') name = Some inst"
    using tab assms(6) by (simp add: map_add_def)
  then have g: "get_live_instance_by_name ?w' name = Some inst" by (rule get_by_name_Some)
  have "map_of (objects ?w' inst) a = Some v"
    unfolding obj using map_of_fold_update[OF assms(5) assms(7)] .
  then have "getattr ?w' inst a = Some v" by (simp add: getattr_def)
  then show ?thesis using g obj by simp
qed

text \<open>
  Example: the snapshot holds \<^verbatim>\<open>{"x": {"a": 42}}\<close>; the object was built with
  \<^verbatim>\<open>a = 1\<close> and has \<^verbatim>\<open>a = 42\<close> once it is registered as \<^verbatim>\<open>x\<close>.
\<close>

theorem register_instance_applies_snapshot_witness:
  "getattr demo_loaded (Obj 0 0) ''a'' = Some (VInt 1) \<and>
   get_live_instance_by_name (snd (register_instance ''x'' (Obj 0 0) demo_loaded)) ''x'' =
     Some (Obj 0 0) \<and>
   getattr (snd (register_instance ''x'' (Obj 0 0) demo_loaded)) (Obj 0 0) ''a'' = Some (VInt 42)"
proof -
  have fh: "file_handler demo_loaded =
      Some \<lparr>loaded_values = Some [(''live_instances'', [(''x'', [(''a'', VInt 42)])])]\<rparr>"
    by (simp add: demo_loaded_def)
  have lv: "loaded_values \<lparr>loaded_values = Some [(''live_instances'', [(''x'', [(''a'', VInt 42)])])]\<rparr> =
      Some [(''live_instances'', [(''x'', [(''a'', VInt 42)])])]"
    by simp
  have sn: "map_of [(''live_instances'', [(''x'', [(''a'', VInt 42)])])] ''live_instances'' =
      Some [(''x'', [(''a'', VInt 42)])]"
    by simp
  have at: "map_of [(''x'', [(''a'', VInt 42)])] ''x'' = Some [(''a'', VInt 42)]" by simp
  have di: "distinct (map fst [(''a'', VInt 42)])" by simp
  have fr: "map_of (live_instances demo_loaded) ''x'' = None"
    by (simp add: demo_loaded_def demo_start_def LiveManager_init_def)
  have av: "map_of [(''a'', VInt 42)] ''a'' = Some (VInt 42)" by simp
  have old: "getattr demo_loaded (Obj 0 0) ''a'' = Some (VInt 1)"
    by (simp add: getattr_def demo_loaded_def demo_start_def LiveManager_init_def demo_objects_def)
  show ?thesis
    using register_instance_applies_snapshot[OF fh lv sn at di fr av, where inst = "Obj 0 0"] old
    by simp
qed

section \<open>The serialized snapshot\<close>

text \<open>
  C6. Serialization returns the mapping with the single key \<^verbatim>\<open>live_instances\<close>,
  under it one entry per registered instance, in table order, and under each instance
  name exactly those attributes of the instance whose name starts neither with
  \<^verbatim>\<open>__\<close> nor with \<^verbatim>\<open>_tracked_attrs\<close>, each with its value. (The keys of a dict
  are distinct.)
\<close>

theorem serialize_instances_shape:
  assumes "distinct (map fst (live_instances w))"
      and "\<forall>(n, r) \<in> set (live_instances w). distinct (map fst (objects w r))"
  shows "serialize_instances ext w =
           Inr [(''live_instances'',
                 map (\<lambda>(n, r).
                        (n, filter (\<lambda>(a, v). \<not> startswith a ''__'' \<and>
                                             \<not> startswith a ''_tracked_attrs'')
                              (objects w r)))
                     (live_instances w))]"
proof -
  have "plain_instances w (live_instances w) [] =
        map (\<lambda>(n, r). (n, plain_clean (objects w r) [])) (live_instances w)"
    using plain_instances_map[OF assms(1), of "[]" w] by simp
  also have "\<dots> = map (\<lambda>(n, r). (n, filter (\<lambda>(a, v). \<not> excluded_attr a) (objects w r)))
                     (live_instances w)"
    using assms(2) by (auto simp: plain_clean_filter)
  finally show ?thesis
    by (simp add: serialize_instances_def instances_loop_plain excluded_attr_def)
qed

text \<open>
  Example: with only \<^verbatim>\<open>x\<close> registered, whose attributes are \<^verbatim>\<open>a = 1\<close>,
  \<^verbatim>\<open>b = "hi"\<close> and \<^verbatim>\<open>_tracked_attrs\<close>, the result is
  \<^verbatim>\<open>{"live_instances": {"x": {"a": 1, "b": "hi"}}}\<close>.
\<close>

theorem serialize_instances_shape_witness:
  "serialize_instances demo_ext
     (snd (register_instance ''x'' (Obj 0 0) (snd (register_class 0 demo_start)))) =
   Inr [(''live_instances'', [(''x'', [(''a'', VInt 1), (''b'', VStr ''hi'')])])]"
proof -
  let ?w = "snd (register_instance ''x'' (Obj 0 0) (snd (register_class 0 demo_start)))"
  have li: "live_instances ?w = [(''x'', Obj 0 0)]"
    by (simp add: demo_start_def LiveManager_init_def register_class_def
        register_instance_def class_getattr_def class_setattr_def demo_classes_def Let_def)
  have ob: "objects ?w = demo_objects"
    by (simp add: demo_start_def LiveManager_init_def register_class_def
        register_instance_def class_getattr_def class_setattr_def demo_classes_def Let_def)
  have d1: "distinct (map fst (live_instances ?w))" by (simp add: li)
  have d2: "\<forall>(n, r) \<in> set (live_instances ?w). distinct (map fst (objects ?w r))"
    by (simp add: li ob demo_objects_def)
  show ?thesis
    using serialize_instances_shape[OF d1 d2, where ext = demo_ext]
    by (simp add: li ob demo_objects_def startswith_def)
qed

section \<open>Instances of a class\<close>



section \<open>Registering a class\<close>

text \<open>
  C8. Registering a class returns the class it was given and does not raise.
  Registering it a second time changes nothing further: the state equals the state
  after the first registration, the name is bound to the class, and the class table
  (a dict, so with distinct keys before) holds exactly one entry for the name.
\<close>

theorem register_class_idempotent:
  "fst (register_class cls w) = Inr cls \<and>
   snd (register_class cls (snd (register_class cls w))) = snd (register_class cls w) \<and>
   get_live_class_by_name (snd (register_class cls w)) (cname (classes w cls)) = Some cls \<and>
   (distinct (map fst (live_classes w)) \<longrightarrow>
      length (filter (\<lambda>kv. fst kv = cname (classes w cls))
                (live_classes (snd (register_class cls (snd (register_class cls w)))))) = 1)"
proof -
  have count: "length (filter (\<lambda>kv. fst kv = k) (AList.update k v al)) = 1"
    if "distinct (map fst al)" for k :: string and v :: nat and al
    using that
  proof (induction al)
    case Nil
    then show ?case by simp
  next
    case (Cons p al)
    show ?case
    proof (cases "fst p = k")
      case True
      then have "k \<notin> fst ` set al" using Cons.prems by auto
      then have "filter (\<lambda>kv. fst kv = k) al = []" by (auto simp: filter_empty_conv)
      then show ?thesis using True by (cases p) simp
    next
      case False
      then show ?thesis using Cons by (cases p) auto
    qed
  qed
  show ?thesis
    by (simp add: register_class_def get_live_class_by_name_def AList.update_conv' count)
qed

text \<open>Example: registering \<^verbatim>\<open>Player\<close> twice leaves one entry.\<close>

theorem register_class_idempotent_witness:
  "fst (register_class 0 demo_start) = Inr 0 \<and>
   live_classes (snd (register_class 0 (snd (register_class 0 demo_start)))) = [(''Player'', 0)] \<and>
   length (filter (\<lambda>kv. fst kv = ''Player'')
     (live_classes (snd (register_class 0 (snd (register_class 0 demo_start)))))) = 1"
proof -
  have d: "distinct (map fst (live_classes demo_start))"
    by (simp add: demo_start_def LiveManager_init_def)
  have nm: "cname (classes demo_start 0) = ''Player''"
    by (simp add: demo_start_def LiveManager_init_def demo_classes_def)
  have l: "live_classes (snd (register_class 0 (snd (register_class 0 demo_start)))) =
             [(''Player'', 0)]"
    by (simp add: register_class_def demo_start_def LiveManager_init_def demo_classes_def)
  show ?thesis
    using register_class_idempotent[where cls = 0 and w = demo_start] d nm l by simp
qed

section \<open>Attributes that hold None\<close>

text \<open>
  C9. An attribute that exists and holds \<^verbatim>\<open>None\<close> cannot be written: the accessor
  returns \<^verbatim>\<open>None\<close> for it as it does for a missing attribute, so the write returns
  \<^verbatim>\<open>None\<close> at line 93 and the state is unchanged.
\<close>

theorem set_attr_None_valued:
  assumes "map_of (live_instances w) n = Some r" and "getattr w r a = Some VNone"
  shows "set_live_instance_attr_by_name tc ext n a raw w = (Inr VNone, w)"
  using assms
  by (simp add: set_live_instance_attr_by_name_def get_live_instance_attr_by_name_def
        get_by_name_Some)

text \<open>Example: \<^verbatim>\<open>gone\<close> of \<^verbatim>\<open>y\<close> holds \<^verbatim>\<open>None\<close> and stays so.\<close>

theorem set_attr_None_valued_witness:
  "getattr demo_world (Obj 0 1) ''gone'' = Some VNone \<and>
   set_live_instance_attr_by_name demo_tc demo_ext ''y'' ''gone'' (VStr ''42'') demo_world =
     (Inr VNone, demo_world)"
proof -
  have g: "getattr demo_world (Obj 0 1) ''gone'' = Some VNone"
    by (simp add: getattr_def demo_world_def demo_objects_def)
  show ?thesis
    using set_attr_None_valued[OF demo_y g, where tc = demo_tc and ext = demo_ext
            and raw = "VStr ''42''"] g
    by simp
qed

section \<open>The textual fallback of serialization\<close>

text \<open>
  C10. The \<^verbatim>\<open>except\<close> branch of the serialization loop is never taken. For every
  state, serialization returns a result (it does not raise); every attribute value in
  the result is the value the live instance of that name holds for that attribute,
  never its textual form; and the result does not depend on how values are turned into
  text.
\<close>

theorem serialize_never_stringifies:
  "(\<exists>snap. serialize_instances ext w = Inr [(''live_instances'', snap)] \<and>
      (\<forall>n d a v. (n, d) \<in> set snap \<and> (a, v) \<in> set d \<longrightarrow>
          (\<exists>r. (n, r) \<in> set (live_instances w) \<and> (a, v) \<in> set (objects w r))))
   \<and> serialize_instances ext w = serialize_instances ext' w"
proof -
  have eq: "serialize_instances e w =
              Inr [(''live_instances'', plain_instances w (live_instances w) [])]" for e
    by (simp add: serialize_instances_def instances_loop_plain)
  have mem: "\<exists>r. (n, r) \<in> set (live_instances w) \<and> (a, v) \<in> set (objects w r)"
    if "(n, d) \<in> set (plain_instances w (live_instances w) [])" and "(a, v) \<in> set d"
    for n d a v
  proof -
    from plain_instances_mem[OF that(1)] obtain r where
      r: "(n, r) \<in> set (live_instances w)" and d: "d = plain_clean (objects w r) []"
      by auto
    have "(a, v) \<in> set (objects w r)"
      using that(2) plain_clean_subset[of "objects w r" "[]"] d by auto
    then show ?thesis using r by blast
  qed
  show ?thesis using eq mem by auto
qed

text \<open>
  Example: the two players serialize with their values as they are, also when every
  value has the textual form \<^verbatim>\<open>text\<close>.
\<close>

theorem serialize_never_stringifies_witness:
  "serialize_instances demo_ext demo_world =
     Inr [(''live_instances'',
           [(''x'', [(''a'', VInt 1), (''b'', VStr ''hi'')]),
            (''y'', [(''on'', VBool False), (''gone'', VNone)])])] \<and>
   serialize_instances demo_ext demo_world =
     serialize_instances (\<lambda>T v. Inr (VStr ''text'')) demo_world"
proof -
  have "serialize_instances demo_ext demo_world =
     Inr [(''live_instances'',
           [(''x'', [(''a'', VInt 1), (''b'', VStr ''hi'')]),
            (''y'', [(''on'', VBool False), (''gone'', VNone)])])]"
    by (simp add: serialize_instances_def demo_world_def demo_objects_def dict_setitem_def
          startswith_def)
  then show ?thesis
    using serialize_never_stringifies[where ext = demo_ext and w = demo_world
            and ext' = "\<lambda>T v. Inr (VStr ''text'')"]
    by simp
qed

end
